theory Spec2Isabelle
  imports Complex_Main "HOL-Library.Word" "HOL-Library.Sublist" "HOL-Library.Multiset"
begin

section \<open>JavaScript values\<close>

text \<open>
  A JavaScript string is a sequence of 16-bit code units; \<open>s.length\<close> is the length of that
  sequence. String literals of the source are written \<open>js ''...''\<close>.
\<close>

type_synonym jschar = "16 word"
type_synonym jsstring = "jschar list"

definition js :: "string \<Rightarrow> jsstring" where
  "js s = map (\<lambda>c. of_nat (of_char c)) s"

text \<open>
  Numbers: the finite values are modelled as rationals (the doubles are a subset of them and
  the source only adds two of them), next to \<open>NaN\<close> and the two infinities.
\<close>

datatype jsnum = NaN | PosInf | NegInf | Fin rat

datatype jsval =
    JUndefined
  | JNull
  | JBool bool
  | JNum jsnum
  | JStr jsstring
  | JArr "jsval list"
  | JObj "(jsstring \<times> jsval) list"

text \<open>Truthiness, as used by \<open>!x\<close>, \<open>x || y\<close>, \<open>x && y\<close>, \<open>Boolean(x)\<close> and \<open>filter\<close>.\<close>

fun truthy :: "jsval \<Rightarrow> bool" where
  "truthy JUndefined = False"
| "truthy JNull = False"
| "truthy (JBool b) = b"
| "truthy (JNum n) = (n \<noteq> NaN \<and> n \<noteq> Fin 0)"
| "truthy (JStr s) = (s \<noteq> [])"
| "truthy (JArr xs) = True"
| "truthy (JObj kvs) = True"

text \<open>\<open>a || b\<close> on values.\<close>

definition js_or :: "jsval \<Rightarrow> jsval \<Rightarrow> jsval" where
  "js_or a b = (if truthy a then a else b)"

text \<open>\<open>x === n\<close> for a number \<open>n\<close>: only a number equals it, and \<open>NaN\<close> equals nothing.\<close>

fun strict_eq_num :: "jsval \<Rightarrow> jsnum \<Rightarrow> bool" where
  "strict_eq_num (JNum m) n = (m = n \<and> m \<noteq> NaN)"
| "strict_eq_num _ n = False"

text \<open>\<open>Array.isArray\<close>, and the elements of a value that is an array.\<close>

fun isArray :: "jsval \<Rightarrow> bool" where
  "isArray (JArr xs) = True"
| "isArray _ = False"

fun elements :: "jsval \<Rightarrow> jsval list" where
  "elements (JArr xs) = xs"
| "elements _ = []"

datatype exn = TypeError | SyntaxError | QuotaExceededError | Error jsstring

section \<open>Tasks\<close>

text \<open>
  A task is an object with exactly the five properties that \<open>createTask\<close> and \<open>loadTasks\<close>
  give it. The values are not typed by the language: \<open>loadTasks\<close> copies whatever truthy
  value the persisted record holds.
\<close>

record task =
  task_id :: jsval
  task_text :: jsval
  completed :: jsval
  createdAt :: jsval
  updatedAt :: jsval

section \<open>Sanitizer and validator (modules/validation.js)\<close>

text \<open>
  The characters that \<open>String.prototype.trim\<close> removes and that \<open>\s\<close> matches in a regular
  expression: the white space and line terminator code units of ECMAScript.
\<close>

definition is_ws :: "jschar \<Rightarrow> bool" where
  "is_ws c \<longleftrightarrow>
     c \<in> {0x09, 0x0A, 0x0B, 0x0C, 0x0D, 0x20, 0xA0, 0x1680, 0x2028, 0x2029, 0x202F, 0x205F,
          0x3000, 0xFEFF}
     \<or> (0x2000 \<le> c \<and> c \<le> 0x200A)"

definition trim :: "jsstring \<Rightarrow> jsstring" where
  "trim s = rev (dropWhile is_ws (rev (dropWhile is_ws s)))"

text \<open>\<open>VALIDATION_RULES.task\<close>: \<open>minLength\<close>, \<open>maxLength\<close> and the class of \<open>allowedChars\<close>.\<close>

definition minLength :: nat where "minLength = 1"
definition maxLength :: nat where "maxLength = 200"

definition is_alnum :: "jschar \<Rightarrow> bool" where
  "is_alnum c \<longleftrightarrow>
     (0x61 \<le> c \<and> c \<le> 0x7A) \<or> (0x41 \<le> c \<and> c \<le> 0x5A) \<or> (0x30 \<le> c \<and> c \<le> 0x39)"

definition allowedChar :: "jschar \<Rightarrow> bool" where
  "allowedChar c \<longleftrightarrow>
     is_alnum c \<or> is_ws c
     \<or> c \<in> {0x2D, 0x2E, 0x2C, 0x21, 0x3F, 0x28, 0x29, 0x5B, 0x5D, 0x7B, 0x7D, 0x3A, 0x3B, 0x22,
            0x27, 0x40, 0x23, 0x24, 0x25, 0x5E, 0x26, 0x2A, 0x2B, 0x3D, 0x5F, 0x7E, 0x60, 0x7C,
            0x5C, 0x2F, 0x3C, 0x3E}
     \<or> (0xC0 \<le> c \<and> c \<le> 0x24F) \<or> (0x1E00 \<le> c \<and> c \<le> 0x1EFF)"

datatype verror =
  REQUIRED | EMPTY_AFTER_TRIM | TOO_SHORT | TOO_LONG | INVALID_CHARS | DUPLICATE | VALIDATION_ERROR

datatype vwarning = APPROACHING_LIMIT | MANY_SPECIAL_CHARS

record vresult =
  isValid :: bool
  errors :: "verror list"
  warnings :: "vwarning list"
  cleaned :: jsstring

text \<open>
  \<^verbatim>\<open>existingTasks.some(task => task.text.toLowerCase().trim() === value.toLowerCase())\<close>.
  \<open>some\<close> stops at the first task that matches; \<open>task.text.toLowerCase()\<close> throws a
  \<open>TypeError\<close> when \<open>task.text\<close> is not a string. \<open>toLowerCase\<close> is the platform's and is
  taken as the parameter \<open>lower\<close>.
\<close>

fun some_duplicate :: "(jsstring \<Rightarrow> jsstring) \<Rightarrow> jsstring \<Rightarrow> task list \<Rightarrow> exn + bool" where
  "some_duplicate lower v [] = Inr False"
| "some_duplicate lower v (t # ts) =
     (case task_text t of
        JStr s \<Rightarrow> if trim (lower s) = lower v then Inr True else some_duplicate lower v ts
      | _ \<Rightarrow> Inl TypeError)"

text \<open>
  \<open>validateTaskInput\<close>, lines 49 to 159. The input is a string at every call site. The
  \<open>try\<close> block pushes onto \<open>result.errors\<close> as it goes, so the \<open>catch\<close> branch adds
  \<open>VALIDATION_ERROR\<close> to what was pushed before the exception and leaves \<open>cleaned\<close>
  empty. The ratio test \<open>specialCharCount / value.length > 0.3\<close> is written over the
  integers.
\<close>

definition validateTaskInput ::
  "(jsstring \<Rightarrow> jsstring) \<Rightarrow> jsstring \<Rightarrow> task list \<Rightarrow> vresult" where
  "validateTaskInput lower input existingTasks =
     (let result = \<lparr>isValid = False, errors = [], warnings = [], cleaned = []\<rparr>;
          v = trim input
      in if v = [] then result\<lparr>errors := [REQUIRED]\<rparr>
         else if length v = 0 \<and> input \<noteq> [] then result\<lparr>errors := [EMPTY_AFTER_TRIM]\<rparr>
         else
           let errs1 = (if length v < minLength then [TOO_SHORT] else []);
               errs2 = errs1 @ (if length v > maxLength then [TOO_LONG] else []);
               errs3 = errs2 @ (if list_all allowedChar v then [] else [INVALID_CHARS])
           in case (if existingTasks \<noteq> [] then some_duplicate lower v existingTasks
                    else Inr False) of
                Inl e \<Rightarrow> result\<lparr>errors := errs3 @ [VALIDATION_ERROR]\<rparr>
              | Inr isDuplicate \<Rightarrow>
                  let errs4 = errs3 @ (if isDuplicate then [DUPLICATE] else []);
                      warns1 = (if 10 * length v > 8 * maxLength then [APPROACHING_LIMIT] else []);
                      specialCharCount = length (filter (\<lambda>c. \<not> (is_alnum c \<or> is_ws c)) v);
                      warns2 = warns1 @
                        (if 10 * specialCharCount > 3 * length v \<and> length v > 10
                         then [MANY_SPECIAL_CHARS] else [])
                  in \<lparr>isValid = (errs4 = []), errors = errs4, warnings = warns2, cleaned = v\<rparr>)"

text \<open>
  \<open>sanitizeInput\<close>, lines 255 to 264:
  \<^verbatim>\<open>input.trim().replace(/\s+/g, ' ').replace(/[\r\n\t]/g, ' ').replace(/[<>]/g, '')
       .substring(0, VALIDATION_RULES.task.maxLength)\<close>
\<close>

function collapse_ws :: "jsstring \<Rightarrow> jsstring" where
  "collapse_ws [] = []"
| "collapse_ws (c # cs) =
     (if is_ws c then 0x20 # collapse_ws (dropWhile is_ws cs) else c # collapse_ws cs)"
  by pat_completeness auto
termination
  by (relation "measure length") (auto simp: length_dropWhile_le less_Suc_eq_le)

definition replace_breaks :: "jsstring \<Rightarrow> jsstring" where
  "replace_breaks s = map (\<lambda>c. if c \<in> {0x0D, 0x0A, 0x09} then 0x20 else c) s"

definition strip_angles :: "jsstring \<Rightarrow> jsstring" where
  "strip_angles s = filter (\<lambda>c. c \<noteq> 0x3C \<and> c \<noteq> 0x3E) s"

definition sanitizeInput :: "jsval \<Rightarrow> jsstring" where
  "sanitizeInput input =
     (case input of
        JStr s \<Rightarrow> take maxLength (strip_angles (replace_breaks (collapse_ws (trim s))))
      | _ \<Rightarrow> [])"

section \<open>JSON and localStorage\<close>

text \<open>
  \<open>jsonify v\<close> is the value of \<open>JSON.parse(JSON.stringify(v))\<close>: a number that is not
  finite becomes \<open>null\<close>, an \<open>undefined\<close> array element becomes \<open>null\<close>, and a property whose
  value is \<open>undefined\<close> is left out. An object is the list of its properties, in order, with
  distinct keys.
\<close>

fun jsonify :: "jsval \<Rightarrow> jsval" where
  "jsonify JUndefined = JUndefined"
| "jsonify JNull = JNull"
| "jsonify (JBool b) = JBool b"
| "jsonify (JNum n) = (case n of Fin r \<Rightarrow> JNum (Fin r) | _ \<Rightarrow> JNull)"
| "jsonify (JStr s) = JStr s"
| "jsonify (JArr xs) = JArr (map (\<lambda>x. if x = JUndefined then JNull else jsonify x) xs)"
| "jsonify (JObj kvs) =
     JObj (map (\<lambda>kv. (fst kv, jsonify (snd kv))) (filter (\<lambda>kv. snd kv \<noteq> JUndefined) kvs))"

text \<open>
  What a key of localStorage holds is a string. The code looks at such a string in two ways
  only: whether it is empty, and what \<open>JSON.parse\<close> makes of it. So a stored string is
  modelled by that: \<open>Garbled s\<close> is a string \<open>s\<close> that \<open>JSON.parse\<close> rejects with a
  \<open>SyntaxError\<close> (the empty string is one), and \<open>Encoded v\<close> is a JSON text that parses to
  \<open>v\<close>. \<open>JSON.stringify\<close> is applied to arrays and object literals only and returns the text
  of the value.
\<close>

datatype blob = Garbled jsstring | Encoded jsval

definition JSON_stringify :: "jsval \<Rightarrow> blob" where
  "JSON_stringify v = Encoded (jsonify v)"

fun JSON_parse :: "blob \<Rightarrow> exn + jsval" where
  "JSON_parse (Garbled s) = Inl SyntaxError"
| "JSON_parse (Encoded v) = Inr v"

text \<open>
  \<open>setItem\<close> throws when the browser refuses the write (quota exceeded, storage disabled);
  whether it does is the flag \<open>accepting\<close> of the store.
\<close>

record storage =
  items :: "string \<rightharpoonup> blob"
  accepting :: bool

definition getItem :: "storage \<Rightarrow> string \<Rightarrow> blob option" where
  "getItem st k = items st k"

definition setItem :: "storage \<Rightarrow> string \<Rightarrow> blob \<Rightarrow> exn + storage" where
  "setItem st k v =
     (if accepting st then Inr (st\<lparr>items := (items st)(k \<mapsto> v)\<rparr>) else Inl QuotaExceededError)"

text \<open>
  Reading a property: \<open>null\<close> and \<open>undefined\<close> throw a \<open>TypeError\<close>, an object gives the
  value of the property or \<open>undefined\<close>, and every other value has none of the properties
  the code asks for (\<open>id\<close>, \<open>text\<close>, \<open>completed\<close>, \<open>createdAt\<close>, \<open>updatedAt\<close>).
\<close>

fun read_prop :: "jsval \<Rightarrow> jsstring \<Rightarrow> exn + jsval" where
  "read_prop JUndefined k = Inl TypeError"
| "read_prop JNull k = Inl TypeError"
| "read_prop (JObj kvs) k = Inr (case map_of kvs k of Some v \<Rightarrow> v | None \<Rightarrow> JUndefined)"
| "read_prop v k = Inr JUndefined"

definition prop_of :: "jsval \<Rightarrow> jsstring \<Rightarrow> jsval" where
  "prop_of v k = (case read_prop v k of Inr x \<Rightarrow> x | Inl ex \<Rightarrow> JUndefined)"

text \<open>
  The clock, the random source and \<open>toLowerCase\<close>, as one call of the code reads them:
  \<open>Date.now()\<close>, \<open>new Date().toISOString()\<close> and \<open>Math.random()\<close>. One call of a
  modelled function reads one value of each.
\<close>

record env =
  date_now :: rat
  iso_now :: jsstring
  random :: rat
  toLowerCase :: "jsstring \<Rightarrow> jsstring"

section \<open>Persistence gateway (modules/storage.js)\<close>

definition STORAGE_KEY :: string where
  "STORAGE_KEY = ''taskflow_tasks''"

definition META_KEY :: string where
  "META_KEY = STORAGE_KEY @ ''_meta''"

fun is_number :: "jsval \<Rightarrow> bool" where
  "is_number (JNum n) = True"
| "is_number _ = False"

fun is_string :: "jsval \<Rightarrow> bool" where
  "is_string (JStr s) = True"
| "is_string _ = False"

fun is_boolean :: "jsval \<Rightarrow> bool" where
  "is_boolean (JBool b) = True"
| "is_boolean _ = False"

text \<open>\<open>typeof v === 'object'\<close>\<close>

fun is_object :: "jsval \<Rightarrow> bool" where
  "is_object JNull = True"
| "is_object (JArr xs) = True"
| "is_object (JObj kvs) = True"
| "is_object _ = False"

text \<open>The filter of \<open>saveTasks\<close>, lines 21 to 27.\<close>

definition valid_task :: "jsval \<Rightarrow> bool" where
  "valid_task task \<longleftrightarrow>
     truthy task \<and> is_object task \<and> is_number (prop_of task (js ''id''))
     \<and> is_string (prop_of task (js ''text'')) \<and> is_boolean (prop_of task (js ''completed''))"

text \<open>
  \<open>saveTasks\<close>, lines 14 to 45. The body of the \<open>try\<close> returns the exception it stops at,
  and the store as the writes before the exception left it.
\<close>

definition saveTasks_try :: "env \<Rightarrow> jsval \<Rightarrow> storage \<Rightarrow> (exn + unit) \<times> storage" where
  "saveTasks_try e ts st =
     (if isArray ts then
        let validTasks = filter valid_task (elements ts);
            serializedData = JSON_stringify (JArr validTasks)
        in (case setItem st STORAGE_KEY serializedData of
              Inl ex \<Rightarrow> (Inl ex, st)
            | Inr st1 \<Rightarrow>
                let metadata = JObj [(js ''lastModified'', JStr (iso_now e)),
                                     (js ''version'', JStr (js ''1.0.0'')),
                                     (js ''taskCount'', JNum (Fin (of_nat (length validTasks))))]
                in (case setItem st1 META_KEY (JSON_stringify metadata) of
                      Inl ex \<Rightarrow> (Inl ex, st1)
                    | Inr st2 \<Rightarrow> (Inr (), st2)))
      else (Inl (Error (js ''Tasks must be an array'')), st))"

definition saveTasks :: "env \<Rightarrow> jsval \<Rightarrow> storage \<Rightarrow> bool \<times> storage" where
  "saveTasks e ts st =
     (case saveTasks_try e ts st of
        (Inl ex, st') \<Rightarrow> (False, st')
      | (Inr u, st') \<Rightarrow> (True, st'))"

text \<open>
  The object literal of \<open>loadTasks\<close>, lines 67 to 73. Its first property read, \<open>task.id\<close>,
  throws when \<open>task\<close> is \<open>null\<close>; once it has succeeded the other reads cannot throw.
\<close>

definition default_task :: "env \<Rightarrow> jsval \<Rightarrow> exn + task" where
  "default_task e task =
     (case read_prop task (js ''id'') of
        Inl ex \<Rightarrow> Inl ex
      | Inr i \<Rightarrow>
          Inr \<lparr>task_id = js_or i (JNum (Fin (date_now e))),
               task_text = js_or (prop_of task (js ''text'')) (JStr []),
               completed = JBool (truthy (prop_of task (js ''completed''))),
               createdAt = js_or (prop_of task (js ''createdAt'')) (JStr (iso_now e)),
               updatedAt = js_or (js_or (prop_of task (js ''updatedAt'')) (prop_of task (js ''createdAt'')))
                                 (JStr (iso_now e))\<rparr>)"

fun map_tasks :: "env \<Rightarrow> jsval list \<Rightarrow> exn + task list" where
  "map_tasks e [] = Inr []"
| "map_tasks e (x # xs) =
     (case default_task e x of
        Inl ex \<Rightarrow> Inl ex
      | Inr t \<Rightarrow> (case map_tasks e xs of Inl ex \<Rightarrow> Inl ex | Inr ts \<Rightarrow> Inr (t # ts)))"

text \<open>\<open>loadTasks\<close>, lines 51 to 79: the body of the \<open>try\<close>, then the function with its \<open>catch\<close>.\<close>

definition loadTasks_try :: "env \<Rightarrow> storage \<Rightarrow> exn + task list" where
  "loadTasks_try e st =
     (case getItem st STORAGE_KEY of
        None \<Rightarrow> Inr []
      | Some stored \<Rightarrow>
          if stored = Garbled [] then Inr []
          else (case JSON_parse stored of
                  Inl ex \<Rightarrow> Inl ex
                | Inr ts \<Rightarrow> if isArray ts then map_tasks e (elements ts) else Inr []))"

definition loadTasks :: "env \<Rightarrow> storage \<Rightarrow> task list" where
  "loadTasks e st = (case loadTasks_try e st of Inl ex \<Rightarrow> [] | Inr ts \<Rightarrow> ts)"

section \<open>Task store (app.js)\<close>

text \<open>
  The fields of \<open>TaskFlowApp\<close> that the store operations read and write, and the
  localStorage they persist to. Every entry of \<open>history\<close> is an output of
  \<open>JSON.stringify\<close>.
\<close>

record app =
  tasks :: "task list"
  history :: "blob list"
  historyIndex :: int
  store :: storage

text \<open>A task as the object it is, and the tasks read back from a parsed array.\<close>

definition task_obj :: "task \<Rightarrow> jsval" where
  "task_obj t =
     JObj [(js ''id'', task_id t), (js ''text'', task_text t), (js ''completed'', completed t),
           (js ''createdAt'', createdAt t), (js ''updatedAt'', updatedAt t)]"

definition obj_task :: "jsval \<Rightarrow> task" where
  "obj_task v =
     \<lparr>task_id = prop_of v (js ''id''), task_text = prop_of v (js ''text''),
      completed = prop_of v (js ''completed''), createdAt = prop_of v (js ''createdAt''),
      updatedAt = prop_of v (js ''updatedAt'')\<rparr>"

fun tasks_of_json :: "jsval \<Rightarrow> task list" where
  "tasks_of_json (JArr xs) = map obj_task xs"
| "tasks_of_json _ = []"

text \<open>\<open>createTask\<close>, lines 281 to 289.\<close>

definition createTask :: "env \<Rightarrow> jsval \<Rightarrow> task" where
  "createTask e txt =
     \<lparr>task_id = JNum (Fin (date_now e + random e)),
      task_text = JStr (sanitizeInput txt),
      completed = JBool False,
      createdAt = JStr (iso_now e),
      updatedAt = JStr (iso_now e)\<rparr>"

text \<open>\<open>saveState\<close>, lines 503 to 513.\<close>

definition saveState :: "app \<Rightarrow> app" where
  "saveState a =
     (let currentState = JSON_stringify (JArr (map task_obj (tasks a)));
          pushed = history a @ [currentState];
          limited = (if length pushed > 50 then tl pushed else pushed)
      in a\<lparr>history := limited, historyIndex := int (length limited) - 1\<rparr>)"

text \<open>
  \<open>saveData\<close>, lines 531 to 537: the result of \<open>saveTasks\<close> only chooses between a log line
  and a notification.
\<close>

definition saveData :: "env \<Rightarrow> app \<Rightarrow> app" where
  "saveData e a = a\<lparr>store := snd (saveTasks e (JArr (map task_obj (tasks a))) (store a))\<rparr>"

text \<open>
  \<open>undo\<close>, lines 518 to 526. \<open>JSON.parse\<close> is not guarded here, so an exception leaves
  \<open>undo\<close> after \<open>historyIndex\<close> was decremented; an index past the end reads \<open>undefined\<close>,
  which \<open>JSON.parse\<close> rejects.
\<close>

definition undo :: "env \<Rightarrow> app \<Rightarrow> exn option \<times> app" where
  "undo e a =
     (if historyIndex a > 0 then
        let a1 = a\<lparr>historyIndex := historyIndex a - 1\<rparr>;
            i = nat (historyIndex a1)
        in (case (if i < length (history a1) then JSON_parse (history a1 ! i)
                  else Inl SyntaxError) of
              Inl ex \<Rightarrow> (Some ex, a1)
            | Inr v \<Rightarrow> (None, saveData e (a1\<lparr>tasks := tasks_of_json v\<rparr>)))
      else (None, a))"

text \<open>\<open>addTask\<close>, lines 294 to 300, and the submit handler that calls it, lines 185 to 205.\<close>

definition addTask :: "env \<Rightarrow> task \<Rightarrow> app \<Rightarrow> app" where
  "addTask e task a =
     (let a1 = saveState a
      in saveData e (a1\<lparr>tasks := task # tasks a1\<rparr>))"

definition handleTaskSubmit :: "env \<Rightarrow> jsstring \<Rightarrow> app \<Rightarrow> app" where
  "handleTaskSubmit e input a =
     (let validation = validateTaskInput (toLowerCase e) input (tasks a)
      in if isValid validation then addTask e (createTask e (JStr (cleaned validation))) a
         else a)"

text \<open>
  A task found by \<open>find\<close> is changed in place: the array keeps its order and the first
  matching element is the one that changes.
\<close>

fun update_first :: "('a \<Rightarrow> bool) \<Rightarrow> ('a \<Rightarrow> 'a) \<Rightarrow> 'a list \<Rightarrow> 'a list" where
  "update_first P f [] = []"
| "update_first P f (x # xs) = (if P x then f x # xs else x # update_first P f xs)"

text \<open>\<open>toggleTask\<close>, lines 305 to 317.\<close>

definition toggleTask :: "env \<Rightarrow> jsnum \<Rightarrow> app \<Rightarrow> app" where
  "toggleTask e taskId a =
     (let a1 = saveState a
      in case find (\<lambda>t. strict_eq_num (task_id t) taskId) (tasks a1) of
           None \<Rightarrow> a1
         | Some task \<Rightarrow>
             saveData e (a1\<lparr>tasks :=
               update_first (\<lambda>t. strict_eq_num (task_id t) taskId)
                 (\<lambda>t. t\<lparr>completed := JBool (\<not> truthy (completed t)),
                         updatedAt := JStr (iso_now e)\<rparr>)
                 (tasks a1)\<rparr>))"

text \<open>\<open>deleteTask\<close>, lines 322 to 331: \<open>findIndex\<close> gives \<open>-1\<close> when nothing matches.\<close>

fun findIndex :: "('a \<Rightarrow> bool) \<Rightarrow> 'a list \<Rightarrow> int" where
  "findIndex P [] = -1"
| "findIndex P (x # xs) =
     (if P x then 0 else (let i = findIndex P xs in if i = -1 then -1 else i + 1))"

definition deleteTask :: "env \<Rightarrow> jsnum \<Rightarrow> app \<Rightarrow> app" where
  "deleteTask e taskId a =
     (let a1 = saveState a;
          taskIndex = findIndex (\<lambda>t. strict_eq_num (task_id t) taskId) (tasks a1)
      in if taskIndex \<noteq> -1 then
           saveData e (a1\<lparr>tasks := take (nat taskIndex) (tasks a1)
                                     @ drop (nat taskIndex + 1) (tasks a1)\<rparr>)
         else a1)"

text \<open>
  \<open>editTask\<close>, lines 336 to 355. \<open>prompt\<close> returns the text the user entered, or \<open>null\<close>
  (here \<open>None\<close>) when the dialog is cancelled.
\<close>

definition editTask :: "env \<Rightarrow> jsnum \<Rightarrow> jsstring option \<Rightarrow> app \<Rightarrow> app" where
  "editTask e taskId prompted a =
     (case find (\<lambda>t. strict_eq_num (task_id t) taskId) (tasks a) of
        None \<Rightarrow> a
      | Some task \<Rightarrow>
          (case prompted of
             None \<Rightarrow> a
           | Some newText \<Rightarrow>
               if JStr (trim newText) \<noteq> task_text task then
                 let validation =
                       validateTaskInput (toLowerCase e) newText
                         (filter (\<lambda>t. \<not> strict_eq_num (task_id t) taskId) (tasks a))
                 in if isValid validation then
                      let a1 = saveState a
                      in saveData e (a1\<lparr>tasks :=
                           update_first (\<lambda>t. strict_eq_num (task_id t) taskId)
                             (\<lambda>t. t\<lparr>task_text := JStr (cleaned validation),
                                     updatedAt := JStr (iso_now e)\<rparr>)
                             (tasks a1)\<rparr>)
                    else a
               else a))"

text \<open>
  \<open>clearCompletedTasks\<close>, lines 374 to 392: \<open>confirmed\<close> says whether the user confirms the
  dialog, which is when the callback runs.
\<close>

definition clearCompletedTasks :: "env \<Rightarrow> bool \<Rightarrow> app \<Rightarrow> app" where
  "clearCompletedTasks e confirmed a =
     (let completedCount = length (filter (\<lambda>t. truthy (completed t)) (tasks a))
      in if completedCount = 0 then a
         else if confirmed then
           (let a1 = saveState a
            in saveData e (a1\<lparr>tasks := filter (\<lambda>t. \<not> truthy (completed t)) (tasks a1)\<rparr>))
         else a)"

text \<open>\<open>toggleAllTasks\<close>, lines 397 to 411.\<close>

definition toggleAllTasks :: "env \<Rightarrow> app \<Rightarrow> app" where
  "toggleAllTasks e a =
     (let allCompleted = list_all (\<lambda>t. truthy (completed t)) (tasks a);
          a1 = saveState a
      in saveData e (a1\<lparr>tasks :=
           map (\<lambda>task. task\<lparr>completed := JBool (\<not> allCompleted),
                             updatedAt := JStr (iso_now e)\<rparr>) (tasks a1)\<rparr>))"

section \<open>View projection (modules/render.js)\<close>

text \<open>
  \<^verbatim>\<open>switch (filter) { case 'active': return tasks.filter(task => !task.completed);
                    case 'completed': return tasks.filter(task => task.completed);
                    case 'all': default: return tasks; }\<close>
\<close>

definition filterTasks :: "task list \<Rightarrow> jsval \<Rightarrow> task list" where
  "filterTasks ts flt =
     (if flt = JStr (js ''active'') then filter (\<lambda>task. \<not> truthy (completed task)) ts
      else if flt = JStr (js ''completed'') then filter (\<lambda>task. truthy (completed task)) ts
      else ts)"

section \<open>Inputs and predicates of the statements\<close>

text \<open>
  Concrete inputs at which the theorems below are evaluated: a lower-casing that agrees with
  \<open>toLowerCase\<close> on ASCII text, one reading of the clock and of the random source, an empty
  store that accepts writes, the application as its constructor leaves it, and a task as
  \<open>createTask\<close> makes it at that reading.
\<close>

definition ascii_lower :: "jsstring \<Rightarrow> jsstring" where
  "ascii_lower s = map (\<lambda>c. if 0x41 \<le> c \<and> c \<le> 0x5A then c + 0x20 else c) s"

definition env0 :: env where
  "env0 = \<lparr>date_now = 1700000000000, iso_now = js ''2023-11-14T22:13:20.000Z'',
           random = 1 / 2, toLowerCase = ascii_lower\<rparr>"

definition empty_store :: storage where
  "empty_store = \<lparr>items = Map.empty, accepting = True\<rparr>"

definition new_app :: app where
  "new_app = \<lparr>tasks = [], history = [], historyIndex = -1, store = empty_store\<rparr>"

definition milk :: task where
  "milk = \<lparr>task_id = JNum (Fin (1700000000000 + 1 / 2)), task_text = JStr (js ''Buy milk''),
            completed = JBool False, createdAt = JStr (js ''2023-11-14T22:13:20.000Z''),
            updatedAt = JStr (js ''2023-11-14T22:13:20.000Z'')\<rparr>"

text \<open>
  Persisted content from which no task array can be read: the key is absent, or the string
  is rejected by \<open>JSON.parse\<close> (the empty string among them), or it is the text of a value
  that is not an array.
\<close>

fun unreadable :: "blob option \<Rightarrow> bool" where
  "unreadable None = True"
| "unreadable (Some (Garbled s)) = True"
| "unreadable (Some (Encoded v)) = (\<not> isArray v)"

text \<open>
  The tasks the round trip is stated for. \<open>structurally_valid\<close> is the shape the claim
  names: a number, a string, a boolean and two timestamps (non-empty strings).
  \<open>storable\<close> asks in addition that the id is finite and not zero.
\<close>

fun is_timestamp :: "jsval \<Rightarrow> bool" where
  "is_timestamp (JStr s) = (s \<noteq> [])"
| "is_timestamp _ = False"

definition structurally_valid :: "task \<Rightarrow> bool" where
  "structurally_valid t \<longleftrightarrow>
     is_number (task_id t) \<and> is_string (task_text t) \<and> is_boolean (completed t)
     \<and> is_timestamp (createdAt t) \<and> is_timestamp (updatedAt t)"

fun finite_nonzero :: "jsval \<Rightarrow> bool" where
  "finite_nonzero (JNum (Fin r)) = (r \<noteq> 0)"
| "finite_nonzero _ = False"

definition storable :: "task \<Rightarrow> bool" where
  "storable t \<longleftrightarrow> structurally_valid t \<and> finite_nonzero (task_id t)"

definition zero_task :: task where
  "zero_task = milk\<lparr>task_id := JNum (Fin 0)\<rparr>"

text \<open>An input of 202 code units: \<open>a\<close>, two hundred spaces, \<open>b\<close>.\<close>

definition wide :: jsstring where
  "wide = js ''a'' @ replicate 200 0x20 @ js ''b''"

section \<open>Properties\<close>

subsection \<open>Filter partition\<close>

lemma js_active_neq_completed: "js ''active'' \<noteq> js ''completed''"
  by (simp add: js_def)

lemma js_all_neq_active: "js ''all'' \<noteq> js ''active''"
  by (simp add: js_def)

lemma js_all_neq_completed: "js ''all'' \<noteq> js ''completed''"
  by (simp add: js_def)

lemma filterTasks_active:
  "filterTasks T (JStr (js ''active'')) = filter (\<lambda>task. \<not> truthy (completed task)) T"
  by (simp add: filterTasks_def)

lemma filterTasks_completed:
  "filterTasks T (JStr (js ''completed'')) = filter (\<lambda>task. truthy (completed task)) T"
  using js_active_neq_completed by (simp add: filterTasks_def)

lemma filterTasks_all: "filterTasks T (JStr (js ''all'')) = T"
  using js_all_neq_active js_all_neq_completed by (simp add: filterTasks_def)

text \<open>
  Claim C8. For every task list \<open>T\<close>, the projections under the filters \<open>active\<close> and
  \<open>completed\<close> share no task, together they hold exactly the tasks of \<open>T\<close> (each as often
  as \<open>T\<close> does), each is a subsequence of \<open>T\<close> (so the relative order of \<open>T\<close> is kept), and
  the filter \<open>all\<close> returns \<open>T\<close> itself.
\<close>

theorem filterTasks_partition:
  "set (filterTasks T (JStr (js ''active''))) \<inter> set (filterTasks T (JStr (js ''completed''))) = {}
   \<and> mset (filterTasks T (JStr (js ''active''))) + mset (filterTasks T (JStr (js ''completed''))) = mset T
   \<and> set (filterTasks T (JStr (js ''active''))) \<union> set (filterTasks T (JStr (js ''completed''))) = set T
   \<and> subseq (filterTasks T (JStr (js ''active''))) T
   \<and> subseq (filterTasks T (JStr (js ''completed''))) T
   \<and> filterTasks T (JStr (js ''all'')) = T"
proof -
  have disj: "set (filter (\<lambda>task. \<not> truthy (completed task)) T)
      \<inter> set (filter (\<lambda>task. truthy (completed task)) T) = {}"
    by auto
  have un: "set (filter (\<lambda>task. \<not> truthy (completed task)) T)
      \<union> set (filter (\<lambda>task. truthy (completed task)) T) = set T"
    by auto
  have ms: "mset (filter (\<lambda>task. \<not> truthy (completed task)) T)
      + mset (filter (\<lambda>task. truthy (completed task)) T) = mset T"
    by (induction T) simp_all
  show ?thesis
    unfolding filterTasks_active filterTasks_completed filterTasks_all
    using disj un ms by simp
qed

subsection \<open>Writing a value that is not an array\<close>

text \<open>
  Claim C10. For every value that is not an array, \<open>saveTasks\<close> returns \<open>false\<close> and leaves
  the store as it was: neither the tasks key nor the metadata key is written.
\<close>

theorem saveTasks_non_array:
  "\<not> isArray ts \<Longrightarrow> saveTasks e ts st = (False, st)"
  by (simp add: saveTasks_def saveTasks_try_def)

theorem saveTasks_non_array_witness:
  "\<not> isArray (JObj [(js ''id'', JNum (Fin 1))])
   \<and> saveTasks env0 (JObj [(js ''id'', JNum (Fin 1))]) empty_store = (False, empty_store)"
  using saveTasks_non_array [of "JObj [(js ''id'', JNum (Fin 1))]" env0 empty_store] by simp

subsection \<open>Editing a task to the text it has\<close>

text \<open>
  Claim C9. When the store holds a task with id \<open>i\<close> and the trimmed new text equals the
  text of that task, \<open>editTask\<close> returns the application unchanged: the tasks, the history,
  the history index and the persisted store are all as before.
\<close>

theorem editTask_same_text:
  "find (\<lambda>t. strict_eq_num (task_id t) i) (tasks a) = Some task \<Longrightarrow>
   JStr (trim newText) = task_text task \<Longrightarrow>
   editTask e i (Some newText) a = a"
  by (simp add: editTask_def)

lemma trim_padded_milk: "trim (js '' Buy milk '') = js ''Buy milk''"
  by (simp add: trim_def js_def is_ws_def)

theorem editTask_same_text_witness:
  "find (\<lambda>t. strict_eq_num (task_id t) (Fin (1700000000000 + 1 / 2)))
     (tasks (new_app\<lparr>tasks := [milk]\<rparr>)) = Some milk
   \<and> JStr (trim (js '' Buy milk '')) = task_text milk
   \<and> editTask env0 (Fin (1700000000000 + 1 / 2)) (Some (js '' Buy milk ''))
        (new_app\<lparr>tasks := [milk]\<rparr>)
      = new_app\<lparr>tasks := [milk]\<rparr>"
proof -
  have f: "find (\<lambda>t. strict_eq_num (task_id t) (Fin (1700000000000 + 1 / 2)))
             (tasks (new_app\<lparr>tasks := [milk]\<rparr>)) = Some milk"
    by (simp add: milk_def)
  have t: "JStr (trim (js '' Buy milk '')) = task_text milk"
    by (simp add: trim_padded_milk) (simp add: milk_def)
  from editTask_same_text [OF f t, of env0] f t show ?thesis by simp
qed

subsection \<open>Decode resilience\<close>

text \<open>
  Claim C4. \<open>loadTasks\<close> returns a list for every content of the store: whenever the body
  of its \<open>try\<close> throws, the result is the empty list, and the result is the empty list
  whenever the tasks key is absent, holds a string that \<open>JSON.parse\<close> rejects, or holds the
  text of a value that is not an array.
\<close>

theorem loadTasks_resilient:
  "(\<forall>ex. loadTasks_try e st = Inl ex \<longrightarrow> loadTasks e st = [])
   \<and> (unreadable (getItem st STORAGE_KEY) \<longrightarrow> loadTasks e st = [])"
proof
  show "\<forall>ex. loadTasks_try e st = Inl ex \<longrightarrow> loadTasks e st = []"
    by (simp add: loadTasks_def)
  show "unreadable (getItem st STORAGE_KEY) \<longrightarrow> loadTasks e st = []"
  proof
    assume u: "unreadable (getItem st STORAGE_KEY)"
    show "loadTasks e st = []"
    proof (cases "getItem st STORAGE_KEY")
      case None
      then show ?thesis by (simp add: loadTasks_def loadTasks_try_def)
    next
      case (Some b)
      with u show ?thesis
        by (cases b) (simp_all add: loadTasks_def loadTasks_try_def)
    qed
  qed
qed

theorem loadTasks_resilient_witness:
  "loadTasks_try env0 (empty_store\<lparr>items := [STORAGE_KEY \<mapsto> Garbled (js ''{not json'')]\<rparr>)
     = Inl SyntaxError
   \<and> unreadable (getItem (empty_store\<lparr>items := [STORAGE_KEY \<mapsto> Garbled (js ''{not json'')]\<rparr>)
         STORAGE_KEY)
   \<and> loadTasks env0 (empty_store\<lparr>items := [STORAGE_KEY \<mapsto> Garbled (js ''{not json'')]\<rparr>) = []"
  using loadTasks_resilient
    [of env0 "empty_store\<lparr>items := [STORAGE_KEY \<mapsto> Garbled (js ''{not json'')]\<rparr>"]
  by (simp add: loadTasks_try_def getItem_def js_def)

subsection \<open>Toggling an id that no task has\<close>

text \<open>
  Claim C2, evaluated. The store holds the task \<open>milk\<close>, whose id is
  \<open>1700000000000.5\<close>, and an empty history. \<open>toggleTask(1700000000000)\<close> finds no task,
  and yet the history has gained a snapshot and the history index has moved from \<open>-1\<close>
  to \<open>0\<close>: \<open>saveState\<close> runs before the task is looked up.
\<close>

theorem toggleTask_absent_pushes_history:
  "find (\<lambda>t. strict_eq_num (task_id t) (Fin 1700000000000))
     (tasks (new_app\<lparr>tasks := [milk]\<rparr>)) = None
   \<and> history (new_app\<lparr>tasks := [milk]\<rparr>) = []
   \<and> historyIndex (new_app\<lparr>tasks := [milk]\<rparr>) = -1
   \<and> history (toggleTask env0 (Fin 1700000000000) (new_app\<lparr>tasks := [milk]\<rparr>))
       = [Encoded (JArr [task_obj milk])]
   \<and> historyIndex (toggleTask env0 (Fin 1700000000000) (new_app\<lparr>tasks := [milk]\<rparr>)) = 0"
  by (simp add: toggleTask_def saveState_def new_app_def milk_def JSON_stringify_def task_obj_def)

text \<open>
  What does hold for an id that no task has: the tasks and the persisted store are left as
  they were, and the history is what \<open>saveState\<close> makes of it.
\<close>

lemma toggleTask_absent_frame:
  "find (\<lambda>t. strict_eq_num (task_id t) i) (tasks a) = None \<Longrightarrow>
   tasks (toggleTask e i a) = tasks a \<and> store (toggleTask e i a) = store a
   \<and> history (toggleTask e i a) = history (saveState a)"
  by (simp add: toggleTask_def saveState_def Let_def)

subsection \<open>Undo after one mutation\<close>

text \<open>
  Claim C1, evaluated with \<open>n = 1\<close>. From the application as constructed (no task, no
  history), \<open>addTask\<close> gives the one-task list, and \<open>undo\<close> then changes nothing: the
  snapshot taken by \<open>saveState\<close> sits at index \<open>0\<close>, and \<open>undo\<close> acts only when
  \<open>historyIndex > 0\<close>. The empty list that held before the mutation is not restored.
\<close>

theorem undo_after_one_mutation_is_noop:
  "tasks new_app = []
   \<and> tasks (addTask env0 milk new_app) = [milk]
   \<and> undo env0 (addTask env0 milk new_app) = (None, addTask env0 milk new_app)"
  by (simp add: undo_def addTask_def saveState_def saveData_def new_app_def Let_def)

text \<open>
  After two mutations the first \<open>undo\<close> goes back two steps: it restores the snapshot
  at index \<open>0\<close>, taken before the first mutation, and the list that held between the two
  mutations is never restored.
\<close>

lemma undo_after_two_mutations_skips_one:
  "tasks (addTask env0 milk new_app) = [milk]
   \<and> tasks (addTask env0 zero_task (addTask env0 milk new_app)) = [zero_task, milk]
   \<and> tasks (snd (undo env0 (addTask env0 zero_task (addTask env0 milk new_app)))) = []"
  by (simp add: undo_def addTask_def saveState_def saveData_def new_app_def Let_def
      JSON_stringify_def)

subsection \<open>Ids of created tasks\<close>

lemma tasks_addTask: "tasks (addTask e t a) = t # tasks a"
  by (simp add: addTask_def saveData_def saveState_def Let_def)

lemma task_id_createTask: "task_id (createTask e x) = JNum (Fin (date_now e + random e))"
  by (simp add: createTask_def)

lemma validate_buy_milk:
  "validateTaskInput ascii_lower (js ''Buy milk'') []
   = \<lparr>isValid = True, errors = [], warnings = [], cleaned = js ''Buy milk''\<rparr>"
  by (simp add: validateTaskInput_def trim_def js_def is_ws_def allowedChar_def is_alnum_def
      minLength_def maxLength_def Let_def)

lemma sanitize_buy_milk: "sanitizeInput (JStr (js ''Buy milk'')) = js ''Buy milk''"
  by (simp add: sanitizeInput_def trim_def js_def is_ws_def strip_angles_def replace_breaks_def
      maxLength_def)

lemma validate_call_mom:
  "validateTaskInput ascii_lower (js ''Call mom'') [createTask env0 (JStr (js ''Buy milk''))]
   = \<lparr>isValid = True, errors = [], warnings = [], cleaned = js ''Call mom''\<rparr>"
  unfolding createTask_def sanitize_buy_milk
  by (simp add: validateTaskInput_def trim_def js_def is_ws_def allowedChar_def is_alnum_def
      minLength_def maxLength_def Let_def ascii_lower_def)

text \<open>
  Claim C5, evaluated. Two submissions, ``Buy milk'' and ``Call mom'', both pass validation
  and both create a task. When \<open>Date.now()\<close> and \<open>Math.random()\<close> give the same two values
  at both calls, the two tasks have the same id: the sum is all that \<open>createTask\<close> does for
  uniqueness, and nothing compares the new id with the ids in the store.
\<close>

theorem creates_share_id:
  "isValid (validateTaskInput (toLowerCase env0) (js ''Buy milk'') (tasks new_app))
   \<and> isValid (validateTaskInput (toLowerCase env0) (js ''Call mom'')
        (tasks (handleTaskSubmit env0 (js ''Buy milk'') new_app)))
   \<and> map task_id (tasks (handleTaskSubmit env0 (js ''Call mom'')
        (handleTaskSubmit env0 (js ''Buy milk'') new_app)))
     = [JNum (Fin (1700000000000 + 1 / 2)), JNum (Fin (1700000000000 + 1 / 2))]
   \<and> \<not> distinct (map task_id (tasks (handleTaskSubmit env0 (js ''Call mom'')
        (handleTaskSubmit env0 (js ''Buy milk'') new_app))))"
proof -
  have lw: "toLowerCase env0 = ascii_lower" by (simp add: env0_def)
  have t0: "tasks new_app = []" by (simp add: new_app_def)
  have v1: "isValid (validateTaskInput (toLowerCase env0) (js ''Buy milk'') (tasks new_app))"
    by (simp add: lw t0 validate_buy_milk)
  have s1: "tasks (handleTaskSubmit env0 (js ''Buy milk'') new_app)
            = [createTask env0 (JStr (js ''Buy milk''))]"
    by (simp add: handleTaskSubmit_def lw t0 validate_buy_milk tasks_addTask)
  have v2: "isValid (validateTaskInput (toLowerCase env0) (js ''Call mom'')
        (tasks (handleTaskSubmit env0 (js ''Buy milk'') new_app)))"
    by (simp add: lw s1 validate_call_mom)
  have s2: "tasks (handleTaskSubmit env0 (js ''Call mom'')
              (handleTaskSubmit env0 (js ''Buy milk'') new_app))
            = [createTask env0 (JStr (js ''Call mom'')), createTask env0 (JStr (js ''Buy milk''))]"
    by (simp add: handleTaskSubmit_def [of env0 "js ''Call mom''"] lw s1 validate_call_mom
        tasks_addTask)
  have ids: "date_now env0 + random env0 = 1700000000000 + 1 / 2" by (simp add: env0_def)
  show ?thesis using v1 v2 by (simp add: s2 task_id_createTask ids)
qed


subsection \<open>Round trip through the store\<close>

lemma prop_of_task_obj:
  "prop_of (task_obj t) (js ''id'') = task_id t"
  "prop_of (task_obj t) (js ''text'') = task_text t"
  "prop_of (task_obj t) (js ''completed'') = completed t"
  "prop_of (task_obj t) (js ''createdAt'') = createdAt t"
  "prop_of (task_obj t) (js ''updatedAt'') = updatedAt t"
  by (simp_all add: task_obj_def prop_of_def js_def)

lemma read_prop_task_obj: "read_prop (task_obj t) (js ''id'') = Inr (task_id t)"
  by (simp add: task_obj_def js_def)

lemma valid_task_obj: "structurally_valid t \<Longrightarrow> valid_task (task_obj t)"
  by (simp add: valid_task_def structurally_valid_def prop_of_task_obj) (simp add: task_obj_def)

lemma filter_valid_task_obj:
  "list_all structurally_valid T \<Longrightarrow> filter valid_task (map task_obj T) = map task_obj T"
  by (induction T) (simp_all add: valid_task_obj)

lemma is_string_jsonify: "is_string v \<Longrightarrow> jsonify v = v \<and> v \<noteq> JUndefined"
  by (cases v) simp_all

lemma is_boolean_jsonify: "is_boolean v \<Longrightarrow> jsonify v = v \<and> v \<noteq> JUndefined"
  by (cases v) simp_all

lemma is_timestamp_jsonify: "is_timestamp v \<Longrightarrow> jsonify v = v \<and> v \<noteq> JUndefined \<and> truthy v"
  by (cases v) simp_all

lemma finite_nonzero_jsonify:
  "finite_nonzero v \<Longrightarrow> jsonify v = v \<and> v \<noteq> JUndefined \<and> truthy v"
proof (cases v)
  case (JNum n)
  assume "finite_nonzero v"
  with JNum show ?thesis by (cases n) simp_all
qed simp_all

lemma jsonify_storable:
  assumes "storable t"
  shows "jsonify (task_obj t) = task_obj t"
proof -
  from assms have i: "jsonify (task_id t) = task_id t \<and> task_id t \<noteq> JUndefined"
    and x: "jsonify (task_text t) = task_text t \<and> task_text t \<noteq> JUndefined"
    and c: "jsonify (completed t) = completed t \<and> completed t \<noteq> JUndefined"
    and r: "jsonify (createdAt t) = createdAt t \<and> createdAt t \<noteq> JUndefined"
    and u: "jsonify (updatedAt t) = updatedAt t \<and> updatedAt t \<noteq> JUndefined"
    by (simp_all add: storable_def structurally_valid_def finite_nonzero_jsonify
        is_string_jsonify is_boolean_jsonify is_timestamp_jsonify)
  show ?thesis by (simp add: task_obj_def i x c r u)
qed

lemma truthy_or: "truthy a \<Longrightarrow> js_or a b = a"
  by (simp add: js_or_def)

lemma boolean_truthy: "is_boolean v \<Longrightarrow> JBool (truthy v) = v"
  by (cases v) simp_all

lemma string_or_empty: "is_string v \<Longrightarrow> js_or v (JStr []) = v"
  by (cases v) (simp_all add: js_or_def)

lemma default_task_storable:
  assumes "storable t"
  shows "default_task e (task_obj t) = Inr t"
proof -
  from assms have i: "truthy (task_id t)" and x: "js_or (task_text t) (JStr []) = task_text t"
    and c: "JBool (truthy (completed t)) = completed t"
    and r: "truthy (createdAt t)" and u: "truthy (updatedAt t)"
    by (simp_all add: storable_def structurally_valid_def finite_nonzero_jsonify
        string_or_empty boolean_truthy is_timestamp_jsonify)
  show ?thesis
    unfolding default_task_def read_prop_task_obj prop_of_task_obj
    by (simp add: truthy_or i x c r u)
qed

lemma map_tasks_storable: "list_all storable T \<Longrightarrow> map_tasks e (map task_obj T) = Inr T"
  by (induction T) (simp_all add: default_task_storable)

lemma jsonify_storable_array:
  "list_all storable T \<Longrightarrow> jsonify (JArr (map task_obj T)) = JArr (map task_obj T)"
proof -
  assume a: "list_all storable T"
  have "map (\<lambda>x. if x = JUndefined then JNull else jsonify x) (map task_obj T) = map task_obj T"
    using a by (induction T) (simp_all add: jsonify_storable, simp add: task_obj_def)
  then show ?thesis by simp
qed

lemma keys_differ: "META_KEY \<noteq> STORAGE_KEY"
  by (simp add: META_KEY_def STORAGE_KEY_def)

lemma saveTasks_accepting:
  "accepting st \<Longrightarrow>
   fst (saveTasks e (JArr xs) st) = True
   \<and> getItem (snd (saveTasks e (JArr xs) st)) STORAGE_KEY
       = Some (JSON_stringify (JArr (filter valid_task xs)))"
  using keys_differ
  by (simp add: saveTasks_def saveTasks_try_def setItem_def getItem_def Let_def)

lemma storable_valid: "list_all storable T \<Longrightarrow> list_all structurally_valid T"
  by (induction T) (simp_all add: storable_def)

text \<open>
  Claim C3, as amended. For every list \<open>T\<close> of structurally valid tasks whose ids are finite
  and not zero, and every store that accepts the write, \<open>saveTasks\<close> succeeds and
  \<open>loadTasks\<close> then returns \<open>T\<close>: the same tasks, with the same field values, in the same
  order, whatever the clock reads at either call.
\<close>

theorem save_load_roundtrip:
  assumes "list_all storable T" and "accepting st"
  shows "fst (saveTasks e (JArr (map task_obj T)) st) = True
         \<and> loadTasks e' (snd (saveTasks e (JArr (map task_obj T)) st)) = T"
proof -
  from saveTasks_accepting [OF assms(2), of e "map task_obj T"]
  have ok: "fst (saveTasks e (JArr (map task_obj T)) st) = True"
    and got: "getItem (snd (saveTasks e (JArr (map task_obj T)) st)) STORAGE_KEY
       = Some (JSON_stringify (JArr (filter valid_task (map task_obj T))))"
    by simp_all
  have "JSON_stringify (JArr (filter valid_task (map task_obj T))) = Encoded (JArr (map task_obj T))"
    using assms(1)
    by (simp add: JSON_stringify_def filter_valid_task_obj storable_valid jsonify_storable_array
        del: jsonify.simps)
  with got have "loadTasks_try e' (snd (saveTasks e (JArr (map task_obj T)) st)) = Inr T"
    using assms(1) by (simp add: loadTasks_try_def map_tasks_storable)
  then show ?thesis using ok by (simp add: loadTasks_def)
qed

theorem save_load_roundtrip_witness:
  "list_all storable [milk] \<and> accepting empty_store
   \<and> fst (saveTasks env0 (JArr (map task_obj [milk])) empty_store) = True
   \<and> loadTasks env0 (snd (saveTasks env0 (JArr (map task_obj [milk])) empty_store)) = [milk]"
proof -
  have s: "list_all storable [milk]"
    by (simp add: storable_def structurally_valid_def milk_def js_def)
  have a: "accepting empty_store" by (simp add: empty_store_def)
  from save_load_roundtrip [OF s a, of env0 env0] s a show ?thesis by simp
qed

text \<open>
  Claim C3 as stated fails for a structurally valid task whose id is \<open>0\<close>: the write
  succeeds, and \<open>loadTasks\<close> returns the task with \<open>Date.now()\<close> as its id, since
  \<open>task.id || Date.now()\<close> takes \<open>0\<close> for a missing id.
\<close>

theorem roundtrip_zero_id_counterexample:
  "list_all structurally_valid [zero_task]
   \<and> fst (saveTasks env0 (JArr (map task_obj [zero_task])) empty_store) = True
   \<and> loadTasks env0 (snd (saveTasks env0 (JArr (map task_obj [zero_task])) empty_store))
       = [zero_task\<lparr>task_id := JNum (Fin 1700000000000)\<rparr>]
   \<and> loadTasks env0 (snd (saveTasks env0 (JArr (map task_obj [zero_task])) empty_store))
       \<noteq> [zero_task]"
proof -
  have sv: "list_all structurally_valid [zero_task]"
    by (simp add: structurally_valid_def zero_task_def milk_def js_def)
  have a: "accepting empty_store" by (simp add: empty_store_def)
  have j: "jsonify (task_obj zero_task) = task_obj zero_task"
    by (simp add: task_obj_def zero_task_def milk_def)
  have f: "valid_task (task_obj zero_task)"
    using sv by (simp add: valid_task_obj)
  have nu: "task_obj zero_task \<noteq> JUndefined" by (simp add: task_obj_def)
  have sv': "fst (saveTasks env0 (JArr [task_obj zero_task]) empty_store) = True"
    using saveTasks_accepting [OF a, of env0 "[task_obj zero_task]"] by simp
  have got: "getItem (snd (saveTasks env0 (JArr [task_obj zero_task]) empty_store)) STORAGE_KEY
       = Some (Encoded (JArr [task_obj zero_task]))"
    using saveTasks_accepting [OF a, of env0 "[task_obj zero_task]"] j nu f
    by (simp add: JSON_stringify_def)
  have d: "default_task env0 (task_obj zero_task)
           = Inr (zero_task\<lparr>task_id := JNum (Fin 1700000000000)\<rparr>)"
    unfolding default_task_def read_prop_task_obj prop_of_task_obj
    by (simp add: js_or_def zero_task_def milk_def env0_def js_def)
  have l: "loadTasks env0 (snd (saveTasks env0 (JArr [task_obj zero_task]) empty_store))
       = [zero_task\<lparr>task_id := JNum (Fin 1700000000000)\<rparr>]"
    by (simp add: loadTasks_def loadTasks_try_def got d)
  have ne: "[zero_task\<lparr>task_id := JNum (Fin 1700000000000)\<rparr>] \<noteq> [zero_task]"
    by (simp add: zero_task_def milk_def)
  from sv sv' l ne show ?thesis by simp
qed

subsection \<open>What the validator checks\<close>

lemma trim_unpadded:
  assumes "s \<noteq> []" and "\<not> is_ws (hd s)" and "\<not> is_ws (last s)"
  shows "trim s = s"
proof -
  from assms(1,2) have d: "dropWhile is_ws s = s"
    by (cases s) simp_all
  from assms(1,3) have "dropWhile is_ws (rev s) = rev s"
    by (cases "rev s") (simp_all add: hd_rev [symmetric])
  with d show ?thesis by (simp add: trim_def)
qed

lemma space_is_ws: "is_ws 0x20"
  by (simp add: is_ws_def)

lemma dropWhile_spaces: "dropWhile is_ws (replicate n 0x20 @ ys) = dropWhile is_ws ys"
  by (induction n) (simp_all add: space_is_ws)

lemma trim_wide: "trim wide = wide"
proof (rule trim_unpadded)
  show "wide \<noteq> []" by (simp add: wide_def js_def)
  show "\<not> is_ws (hd wide)" by (simp add: wide_def js_def is_ws_def)
  show "\<not> is_ws (last wide)" by (simp add: wide_def js_def is_ws_def)
qed

lemma length_wide: "length wide = 202"
  by (simp add: wide_def js_def)

lemma collapse_wide: "collapse_ws wide = js ''a b''"
proof -
  have r: "replicate 200 (0x20 :: jschar) = 0x20 # replicate 199 0x20"
    by (simp add: replicate_Suc [symmetric] del: replicate_Suc)
  have "collapse_ws wide = 0x61 # collapse_ws (0x20 # replicate 199 0x20 @ [0x62])"
    by (simp add: wide_def js_def r is_ws_def)
  also have "\<dots> = 0x61 # 0x20 # collapse_ws (dropWhile is_ws (replicate 199 0x20 @ [0x62]))"
    by (simp add: space_is_ws)
  also have "\<dots> = 0x61 # 0x20 # collapse_ws [0x62]"
    by (simp only: dropWhile_spaces) (simp add: is_ws_def)
  also have "\<dots> = js ''a b''"
    by (simp add: js_def is_ws_def)
  finally show ?thesis .
qed

lemma allowed_wide: "list_all allowedChar wide"
  by (simp add: wide_def js_def list_all_iff allowedChar_def is_alnum_def is_ws_def)

text \<open>
  Claim C6, as amended. For every raw input, the validator trims leading and trailing
  whitespace and runs its checks on the trimmed value, without collapsing runs of
  whitespace inside it: \<open>TOO_LONG\<close> is reported exactly when the trimmed value has more
  than \<open>maxLength\<close> code units, \<open>INVALID_CHARS\<close> exactly when a character of the trimmed
  value is outside the allowed class, and a valid result carries the trimmed value as
  \<open>cleaned\<close>.
\<close>

theorem validate_checks_trimmed:
  "(TOO_LONG \<in> set (errors (validateTaskInput lower input existing))
      \<longleftrightarrow> maxLength < length (trim input))
   \<and> (INVALID_CHARS \<in> set (errors (validateTaskInput lower input existing))
      \<longleftrightarrow> \<not> list_all allowedChar (trim input))
   \<and> (isValid (validateTaskInput lower input existing)
      \<longrightarrow> cleaned (validateTaskInput lower input existing) = trim input)"
proof (cases "trim input = []")
  case True
  then show ?thesis
    by (simp add: validateTaskInput_def maxLength_def)
next
  case False
  show ?thesis
  proof (cases "if existing \<noteq> [] then some_duplicate lower (trim input) existing else Inr False")
    case (Inl ex)
    with False show ?thesis
      by (simp add: validateTaskInput_def Let_def minLength_def)
  next
    case (Inr dup)
    with False show ?thesis
      by (simp add: validateTaskInput_def Let_def minLength_def)
  qed
qed

lemma validate_double_space:
  "validateTaskInput ascii_lower (js '' a  b '') []
   = \<lparr>isValid = True, errors = [], warnings = [], cleaned = js ''a  b''\<rparr>"
  by (simp add: validateTaskInput_def trim_def js_def is_ws_def allowedChar_def is_alnum_def
      minLength_def maxLength_def Let_def)

theorem validate_checks_trimmed_witness:
  "isValid (validateTaskInput ascii_lower (js '' a  b '') [])
   \<and> cleaned (validateTaskInput ascii_lower (js '' a  b '') []) = trim (js '' a  b '')
   \<and> trim (js '' a  b '') = js ''a  b''"
  using validate_checks_trimmed [of ascii_lower "js '' a  b ''" "[]"]
  by (simp add: validate_double_space)

text \<open>
  Claim C6 as stated fails at the input \<open>wide\<close>: collapsed, it has three code units, which
  is within the bound, and yet the validator reports \<open>TOO_LONG\<close>, because the length it
  checks is 202, that of the trimmed value.
\<close>

theorem validate_wide_counterexample:
  "length (collapse_ws (trim wide)) = 3
   \<and> minLength \<le> length (collapse_ws (trim wide))
   \<and> length (collapse_ws (trim wide)) \<le> maxLength
   \<and> errors (validateTaskInput ascii_lower wide []) = [TOO_LONG]
   \<and> isValid (validateTaskInput ascii_lower wide []) = False"
proof -
  have ne: "wide \<noteq> []" by (simp add: wide_def js_def)
  have c: "length (collapse_ws (trim wide)) = 3"
    by (simp add: trim_wide collapse_wide) (simp add: js_def)
  have v: "validateTaskInput ascii_lower wide []
     = \<lparr>isValid = False, errors = [TOO_LONG], warnings = [APPROACHING_LIMIT], cleaned = wide\<rparr>"
    unfolding validateTaskInput_def trim_wide
    using ne allowed_wide
    by (simp add: Let_def length_wide minLength_def maxLength_def)
       (simp add: wide_def js_def is_alnum_def is_ws_def)
  show ?thesis by (simp add: c v minLength_def maxLength_def)
qed


subsection \<open>Validating a sanitized value\<close>

lemma some_duplicate_strings:
  "list_all (\<lambda>t. is_string (task_text t)) existing \<Longrightarrow>
   \<exists>b. some_duplicate lower v existing = Inr b"
proof (induction existing)
  case Nil
  show ?case by (rule exI [of _ False]) simp
next
  case (Cons t ts)
  then show ?case by (cases "task_text t") auto
qed

lemma length_sanitizeInput: "length (sanitizeInput x) \<le> maxLength"
  by (cases x) (simp_all add: sanitizeInput_def)

text \<open>
  Claim C7, as amended. For every string \<open>s\<close> such that \<open>sanitizeInput s\<close> is not empty
  and neither begins nor ends with a whitespace character, and every list of existing tasks
  whose texts are strings, validating the sanitized value gives it back as \<open>cleaned\<close>.
  (The sanitized value is always within the length bound, by \<open>length_sanitizeInput\<close>.)
\<close>

theorem validate_sanitized:
  assumes "list_all (\<lambda>t. is_string (task_text t)) existing"
    and "sanitizeInput (JStr s) \<noteq> []"
    and "\<not> is_ws (hd (sanitizeInput (JStr s)))"
    and "\<not> is_ws (last (sanitizeInput (JStr s)))"
  shows "cleaned (validateTaskInput lower (sanitizeInput (JStr s)) existing) = sanitizeInput (JStr s)"
proof -
  let ?x = "sanitizeInput (JStr s)"
  have t: "trim ?x = ?x" using assms(2-4) by (rule trim_unpadded)
  from some_duplicate_strings [OF assms(1)] obtain b
    where b: "some_duplicate lower ?x existing = Inr b" by blast
  show ?thesis
    unfolding validateTaskInput_def t
    using assms(2) b by (simp add: Let_def)
qed

lemma sanitize_spaced_milk: "sanitizeInput (JStr (js ''  Buy   milk '')) = js ''Buy milk''"
  by (simp add: sanitizeInput_def trim_def js_def is_ws_def strip_angles_def replace_breaks_def
      maxLength_def)

theorem validate_sanitized_witness:
  "list_all (\<lambda>t. is_string (task_text t)) [milk]
   \<and> sanitizeInput (JStr (js ''  Buy   milk '')) \<noteq> []
   \<and> \<not> is_ws (hd (sanitizeInput (JStr (js ''  Buy   milk ''))))
   \<and> \<not> is_ws (last (sanitizeInput (JStr (js ''  Buy   milk ''))))
   \<and> cleaned (validateTaskInput ascii_lower (sanitizeInput (JStr (js ''  Buy   milk ''))) [milk])
       = sanitizeInput (JStr (js ''  Buy   milk ''))"
proof -
  have a: "list_all (\<lambda>t. is_string (task_text t)) [milk]" by (simp add: milk_def)
  have b: "sanitizeInput (JStr (js ''  Buy   milk '')) \<noteq> []"
    by (simp add: sanitize_spaced_milk) (simp add: js_def)
  have c: "\<not> is_ws (hd (sanitizeInput (JStr (js ''  Buy   milk ''))))"
    by (simp add: sanitize_spaced_milk) (simp add: js_def is_ws_def)
  have d: "\<not> is_ws (last (sanitizeInput (JStr (js ''  Buy   milk ''))))"
    by (simp add: sanitize_spaced_milk) (simp add: js_def is_ws_def)
  from validate_sanitized [OF a b c d, of ascii_lower] a b c d show ?thesis by simp
qed

lemma sanitize_angle: "sanitizeInput (JStr (js ''< a'')) = js '' a''"
  by (simp add: sanitizeInput_def trim_def js_def is_ws_def strip_angles_def replace_breaks_def
      maxLength_def)

lemma validate_space_a:
  "validateTaskInput ascii_lower (js '' a'') []
   = \<lparr>isValid = True, errors = [], warnings = [], cleaned = js ''a''\<rparr>"
  by (simp add: validateTaskInput_def trim_def js_def is_ws_def allowedChar_def is_alnum_def
      minLength_def maxLength_def Let_def)

text \<open>
  Claim C7 as stated fails at \<open>s = "< a"\<close>: \<open>sanitizeInput\<close> trims first and removes the
  angle bracket afterwards, so its result is \<open>" a"\<close>, not empty and within the bound; the
  validator trims it again and \<open>cleaned\<close> is \<open>"a"\<close>.
\<close>

theorem validate_sanitized_counterexample:
  "sanitizeInput (JStr (js ''< a'')) = js '' a''
   \<and> sanitizeInput (JStr (js ''< a'')) \<noteq> []
   \<and> minLength \<le> length (sanitizeInput (JStr (js ''< a'')))
   \<and> length (sanitizeInput (JStr (js ''< a''))) \<le> maxLength
   \<and> cleaned (validateTaskInput ascii_lower (sanitizeInput (JStr (js ''< a''))) []) = js ''a''
   \<and> cleaned (validateTaskInput ascii_lower (sanitizeInput (JStr (js ''< a''))) [])
       \<noteq> sanitizeInput (JStr (js ''< a''))"
  by (simp add: sanitize_angle validate_space_a) (simp add: js_def minLength_def maxLength_def)


end
